theory Spec2Isabelle
  imports Main
begin

section \<open>Values shared by the two pollers\<close>

text \<open>
  The repository polls two providers for the status of a generation job:
  \<^verbatim>\<open>pollLumaTask\<close> (utils/luma-polling.ts) and \<^verbatim>\<open>pollRunwayTask\<close> (utils/polling.ts).
  Each is a \<^verbatim>\<open>setInterval\<close> callback closed over a counter, the interval handle and the
  \<^verbatim>\<open>resolve\<close>/\<open>reject\<close> pair of one promise. The model passes that closure state explicitly
  and records every effect of a tick, in order, in a trace.

  Modelling conventions:
  \<^item> one fetch is in flight at a time: the response of a tick's status request arrives before
    the next interval fires, so ticks run one after the other;
  \<^item> \<^verbatim>\<open>mcpExchange.sendProgress\<close> does not throw; a call to it is the trace event \<open>Sent\<close>;
  \<^item> console logging is left out.
\<close>

definition POLLING_INTERVAL_MS :: nat where
  "POLLING_INTERVAL_MS = 5000"

definition MAX_POLLING_ATTEMPTS :: nat where
  "MAX_POLLING_ATTEMPTS = 60"

text \<open>The JavaScript values that occur as progress payloads.\<close>

datatype json = JUndefined | JBool bool | JString string | JObject "(string \<times> json) list"

fun truthy :: "json \<Rightarrow> bool" where
  "truthy JUndefined = False"
| "truthy (JBool b) = b"
| "truthy (JString s) = (s \<noteq> [])"
| "truthy (JObject kvs) = True"

text \<open>An optional string (\<open>None\<close> is \<^verbatim>\<open>undefined\<close> or \<^verbatim>\<open>null\<close>) as a JavaScript value, and its truthiness.\<close>

fun of_opt :: "string option \<Rightarrow> json" where
  "of_opt None = JUndefined"
| "of_opt (Some s) = JString s"

fun truthy_str :: "string option \<Rightarrow> bool" where
  "truthy_str None = False"
| "truthy_str (Some s) = (s \<noteq> [])"

datatype ErrorCode = InternalError | InvalidRequest | InvalidParams | MethodNotFound

text \<open>\<open>McpError c m\<close> is \<^verbatim>\<open>new McpError(c, m)\<close>: the code and the message handed to the constructor.\<close>

datatype McpError = McpError ErrorCode string

text \<open>
  What a status request can throw: an instance of the provider SDK's \<^verbatim>\<open>APIError\<close> with its
  HTTP status (possibly undefined) and message, or anything else with a message.
\<close>

datatype fetch_error = APIError "nat option" string | OtherError string

datatype 'snap fetch_result = Returned 'snap | Thrown fetch_error

fun error_message :: "fetch_error \<Rightarrow> string" where
  "error_message (APIError st m) = m"
| "error_message (OtherError m) = m"

text \<open>\<^verbatim>\<open>error instanceof <SDK>.APIError && error.status === 404\<close>\<close>

fun is_404 :: "fetch_error \<Rightarrow> bool" where
  "is_404 (APIError st m) = (st = Some 404)"
| "is_404 (OtherError m) = False"

text \<open>
  The effects of a poll session, in the order they happen:
  \<^item> \<open>Fetch\<close>: the status request was issued;
  \<^item> \<open>Emit status data\<close>: the poller's local \<^verbatim>\<open>sendProgress(status, data)\<close> was called;
  \<^item> \<open>Sent token value\<close>: \<^verbatim>\<open>mcpExchange.sendProgress({token, value})\<close> was called;
  \<^item> \<open>ClearInterval\<close>: \<^verbatim>\<open>clearInterval(intervalId)\<close>;
  \<^item> \<open>Resolve url\<close>, \<open>Reject e\<close>: the promise's \<^verbatim>\<open>resolve\<close> or \<^verbatim>\<open>reject\<close> was called.
\<close>

datatype event =
    Fetch
  | Emit string json
  | Sent string json
  | ClearInterval
  | Resolve string
  | Reject McpError

text \<open>
  The closure state of one poll session: the counter \<^verbatim>\<open>attempts\<close>, whether the interval
  has been cleared, the state of the promise (\<open>None\<close> is pending, \<open>Inr url\<close> resolved,
  \<open>Inl e\<close> rejected) and the trace.
\<close>

record session =
  attempts :: nat
  cleared :: bool
  outcome :: "(McpError + string) option"
  trace :: "event list"

definition init_session :: session where
  "init_session = \<lparr>attempts = 0, cleared = False, outcome = None, trace = []\<rparr>"

definition log :: "event \<Rightarrow> session \<Rightarrow> session" where
  "log e s = s\<lparr>trace := trace s @ [e]\<rparr>"

definition clearInterval :: "session \<Rightarrow> session" where
  "clearInterval s = log ClearInterval (s\<lparr>cleared := True\<rparr>)"

text \<open>A promise settles once: \<^verbatim>\<open>resolve\<close> and \<^verbatim>\<open>reject\<close> on a settled promise change nothing.\<close>

definition settle :: "McpError + string \<Rightarrow> session \<Rightarrow> session" where
  "settle v s = (case outcome s of None \<Rightarrow> s\<lparr>outcome := Some v\<rparr> | Some w \<Rightarrow> s)"

definition resolve :: "string \<Rightarrow> session \<Rightarrow> session" where
  "resolve url s = log (Resolve url) (settle (Inr url) s)"

definition reject :: "McpError \<Rightarrow> session \<Rightarrow> session" where
  "reject e s = log (Reject e) (settle (Inl e) s)"

text \<open>Statements run one after the other, first to last.\<close>

definition do_seq :: "(session \<Rightarrow> session) list \<Rightarrow> session \<Rightarrow> session" where
  "do_seq fs s = fold (\<lambda>f. f) fs s"

text \<open>
  The timer: \<^verbatim>\<open>setInterval(callback, POLLING_INTERVAL_MS)\<close> runs the callback once per interval
  until the interval is cleared. The list holds, per interval, the provider's answer at
  that time.
\<close>

fun setInterval :: "('r \<Rightarrow> session \<Rightarrow> session) \<Rightarrow> 'r list \<Rightarrow> session \<Rightarrow> session" where
  "setInterval callback [] s = s"
| "setInterval callback (r # rs) s =
     (if cleared s then s else setInterval callback rs (callback r s))"

text \<open>\<^verbatim>\<open>String.prototype.toUpperCase\<close> on ASCII text.\<close>

definition toUpperCase :: "string \<Rightarrow> string" where
  "toUpperCase = map (\<lambda>c. let n = (of_char c :: nat)
                           in if 97 \<le> n \<and> n \<le> 122 then char_of (n - 32) else c)"

section \<open>pollLumaTask\<close>

datatype ExpectedAssetType = Video | Image | Upscaled_video

text \<open>The string an \<^verbatim>\<open>ExpectedAssetType\<close> is, as template literals print it.\<close>

fun asset_type_name :: "ExpectedAssetType \<Rightarrow> string" where
  "asset_type_name Video = ''video''"
| "asset_type_name Image = ''image''"
| "asset_type_name Upscaled_video = ''upscaled_video''"

text \<open>
  \<^verbatim>\<open>LumaPollOptions\<close> without the two handles: \<^verbatim>\<open>lumaClient\<close> is the source of the fetch
  results and \<^verbatim>\<open>mcpExchange\<close> the receiver of the \<open>Sent\<close> events.
\<close>

record LumaPollOptions =
  generationId :: string
  progressToken :: "string option"
  expectedAssetType :: "ExpectedAssetType option"

text \<open>The destructuring default \<^verbatim>\<open>expectedAssetType = 'video'\<close>.\<close>

definition luma_expected :: "LumaPollOptions \<Rightarrow> ExpectedAssetType" where
  "luma_expected opts = (case expectedAssetType opts of None \<Rightarrow> Video | Some t \<Rightarrow> t)"

text \<open>The fields of a Luma generation the poller reads.\<close>

record Assets =
  assets_video :: "string option"
  assets_image :: "string option"

record Generation =
  state :: "string option"
  assets :: "Assets option"
  failure_reason :: "string option"

definition luma_sendProgress :: "LumaPollOptions \<Rightarrow> string \<Rightarrow> json \<Rightarrow> session \<Rightarrow> session" where
  "luma_sendProgress opts status data s =
     (let s1 = log (Emit status data) s
      in if truthy_str (progressToken opts)
         then log (Sent (the (progressToken opts))
                     (JObject ((''status'', JString status) #
                               (if truthy data then [(''result'', data)] else [])))) s1
         else s1)"

text \<open>
  The asset the \<^verbatim>\<open>completed\<close> case reads for an expected type, with the key it is reported
  under: the \<^verbatim>\<open>if\<close>/\<^verbatim>\<open>else if\<close> chain over \<^verbatim>\<open>expectedAssetType\<close>. \<^verbatim>\<open>assets?.video\<close> of
  absent assets is undefined.
\<close>

definition luma_asset :: "ExpectedAssetType \<Rightarrow> Generation \<Rightarrow> string option \<times> string" where
  "luma_asset t g =
     (let video = (case assets g of None \<Rightarrow> None | Some a \<Rightarrow> assets_video a);
          image = (case assets g of None \<Rightarrow> None | Some a \<Rightarrow> assets_image a)
      in case t of
           Video \<Rightarrow> (video, ''videoUrl'')
         | Image \<Rightarrow> (image, ''imageUrl'')
         | Upscaled_video \<Rightarrow> (video, ''upscaledVideoUrl''))"

text \<open>\<^verbatim>\<open>generationStatus.failure_reason || 'Unknown failure reason'\<close>\<close>

definition failureReason :: "Generation \<Rightarrow> string" where
  "failureReason g =
     (if truthy_str (failure_reason g) then the (failure_reason g) else ''Unknown failure reason'')"

text \<open>The \<^verbatim>\<open>switch (generationStatus.state)\<close> of the callback.\<close>

definition luma_on_status :: "LumaPollOptions \<Rightarrow> Generation \<Rightarrow> session \<Rightarrow> session" where
  "luma_on_status opts g s =
     (if state g = Some ''completed'' then
        (let (assetUrl, assetKey) = luma_asset (luma_expected opts) g
         in if truthy_str assetUrl then
              do_seq [clearInterval,
                      luma_sendProgress opts ''SUCCEEDED'' (JObject [(assetKey, of_opt assetUrl)]),
                      resolve (the assetUrl)] s
            else
              (let reason = ''Task completed but no '' @ asset_type_name (luma_expected opts) @ '' URL found.''
               in do_seq [clearInterval,
                          luma_sendProgress opts ''FAILED'' (JObject [(''reason'', JString reason)]),
                          reject (McpError InternalError
                                    (''Luma AI task '' @ generationId opts @ '' '' @ reason))] s))
      else if state g = Some ''failed'' then
        do_seq [clearInterval,
                luma_sendProgress opts ''FAILED'' (JObject [(''reason'', JString (failureReason g))]),
                reject (McpError InternalError
                          (''Luma AI task '' @ generationId opts @ '' failed: '' @ failureReason g))] s
      else if state g = Some ''queued'' \<or> state g = Some ''dreaming'' then
        luma_sendProgress opts (toUpperCase (the (state g))) JUndefined s
      else
        luma_sendProgress opts ''UNKNOWN_STATUS'' (JObject [(''status'', of_opt (state g))]) s)"

text \<open>The \<^verbatim>\<open>catch\<close> block of the callback.\<close>

definition luma_on_error :: "LumaPollOptions \<Rightarrow> fetch_error \<Rightarrow> session \<Rightarrow> session" where
  "luma_on_error opts e s =
     (if is_404 e then
        do_seq [clearInterval,
                luma_sendProgress opts ''FAILED''
                  (JObject [(''reason'', JString (''Generation ID '' @ generationId opts @ '' not found.''))]),
                reject (McpError InvalidRequest
                          (''Luma AI generation ID '' @ generationId opts @ '' not found.''))] s
      else
        luma_sendProgress opts ''POLLING_ERROR'' (JObject [(''message'', JString (error_message e))]) s)"

text \<open>
  One run of the interval callback. \<open>r\<close> is what \<^verbatim>\<open>lumaClient.generations.get\<close> answers if the
  tick asks; a tick that times out does not ask.
\<close>

definition luma_tick :: "LumaPollOptions \<Rightarrow> Generation fetch_result \<Rightarrow> session \<Rightarrow> session" where
  "luma_tick opts r s0 =
     (let s = s0\<lparr>attempts := attempts s0 + 1\<rparr>
      in if attempts s > MAX_POLLING_ATTEMPTS then
           do_seq [clearInterval,
                   luma_sendProgress opts ''TIMEOUT'' JUndefined,
                   reject (McpError InternalError
                             (''Polling timed out for Luma AI task '' @ generationId opts))] s
         else
           (case r of
              Returned g \<Rightarrow> luma_on_status opts g (log Fetch s)
            | Thrown e \<Rightarrow> luma_on_error opts e (log Fetch s)))"

definition pollLumaTask :: "LumaPollOptions \<Rightarrow> Generation fetch_result list \<Rightarrow> session" where
  "pollLumaTask opts rs = setInterval (luma_tick opts) rs init_session"

section \<open>pollRunwayTask\<close>

record PollOptions =
  taskId :: string
  runway_progressToken :: "string option"

text \<open>The fields of a Runway task the poller reads; \<open>task_output = None\<close> is an absent list.\<close>

record Task =
  task_status :: string
  task_output :: "string list option"

definition runway_sendProgress :: "PollOptions \<Rightarrow> string \<Rightarrow> json \<Rightarrow> session \<Rightarrow> session" where
  "runway_sendProgress opts st data s =
     (let s1 = log (Emit st data) s
      in if truthy_str (runway_progressToken opts)
         then log (Sent (the (runway_progressToken opts))
                     (JObject ((''status'', JString st) #
                               (if truthy data then [(''data'', data)] else [])))) s1
         else s1)"

text \<open>The \<^verbatim>\<open>switch (taskStatus.status)\<close> of the callback.\<close>

definition runway_on_status :: "PollOptions \<Rightarrow> Task \<Rightarrow> session \<Rightarrow> session" where
  "runway_on_status opts t s =
     (if task_status t = ''SUCCEEDED'' then
        (case task_output t of
           Some (videoUrl # others) \<Rightarrow>
             do_seq [clearInterval,
                     runway_sendProgress opts ''SUCCEEDED'' (JObject [(''videoUrl'', JString videoUrl)]),
                     resolve videoUrl] s
         | _ \<Rightarrow>
             do_seq [clearInterval,
                     runway_sendProgress opts ''FAILED''
                       (JObject [(''reason'', JString ''Task succeeded but no output URL found.'')]),
                     reject (McpError InternalError
                               (''RunwayML task '' @ taskId opts @ '' succeeded but returned no output URL.''))] s)
      else if task_status t = ''FAILED'' then
        (let failureReason = ''RunwayML task failed (Status: FAILED)''
         in do_seq [clearInterval,
                    runway_sendProgress opts ''FAILED'' (JObject [(''reason'', JString failureReason)]),
                    reject (McpError InternalError failureReason)] s)
      else if task_status t = ''PENDING'' \<or> task_status t = ''RUNNING'' then
        runway_sendProgress opts (task_status t) JUndefined s
      else
        runway_sendProgress opts ''UNKNOWN_STATUS'' (JObject [(''status'', JString (task_status t))]) s)"

text \<open>The \<^verbatim>\<open>catch\<close> block of the callback.\<close>

definition runway_on_error :: "PollOptions \<Rightarrow> fetch_error \<Rightarrow> session \<Rightarrow> session" where
  "runway_on_error opts e s =
     (if is_404 e then
        do_seq [clearInterval,
                runway_sendProgress opts ''FAILED''
                  (JObject [(''reason'', JString (''Task ID '' @ taskId opts @ '' not found.''))]),
                reject (McpError InvalidRequest
                          (''RunwayML task ID '' @ taskId opts @ '' not found.''))] s
      else
        runway_sendProgress opts ''POLLING_ERROR'' (JObject [(''message'', JString (error_message e))]) s)"

definition runway_tick :: "PollOptions \<Rightarrow> Task fetch_result \<Rightarrow> session \<Rightarrow> session" where
  "runway_tick opts r s0 =
     (let s = s0\<lparr>attempts := attempts s0 + 1\<rparr>
      in if attempts s > MAX_POLLING_ATTEMPTS then
           do_seq [clearInterval,
                   runway_sendProgress opts ''TIMEOUT'' JUndefined,
                   reject (McpError InternalError
                             (''Polling timed out for RunwayML task '' @ taskId opts))] s
         else
           (case r of
              Returned t \<Rightarrow> runway_on_status opts t (log Fetch s)
            | Thrown e \<Rightarrow> runway_on_error opts e (log Fetch s)))"

definition pollRunwayTask :: "PollOptions \<Rightarrow> Task fetch_result list \<Rightarrow> session" where
  "pollRunwayTask opts rs = setInterval (runway_tick opts) rs init_session"

section \<open>The tools that start a job\<close>

text \<open>
  \<^verbatim>\<open>generateTextToVideoTool\<close> (tools/text-to-video-tool.ts) and \<^verbatim>\<open>lumaGenerateImageTool\<close>
  (tools/luma-generate-image-tool.ts) validate their arguments, create the remote job,
  start a poll session without awaiting it, and return. Schema validation is the zod
  library's: the tools take the result of \<^verbatim>\<open>schema.parse(args)\<close>, either the rendered issues
  (\<^verbatim>\<open>path - message\<close> each) or the validated arguments. The enum with a default that decides
  the provider is modelled on its own. A tool call ends when the tool returns or throws; what
  its \<^verbatim>\<open>then\<close> and \<^verbatim>\<open>catch\<close> handlers do once the poll session settles is left out.
\<close>

text \<open>\<^verbatim>\<open>z.enum(['runwayml', 'lumaai']).optional().default('runwayml')\<close>: \<open>None\<close> is a validation error.\<close>

fun providerEnum :: "json \<Rightarrow> string option" where
  "providerEnum JUndefined = Some ''runwayml''"
| "providerEnum (JString p) = (if p = ''runwayml'' \<or> p = ''lumaai'' then Some p else None)"
| "providerEnum v = None"

record TextToVideoParams =
  provider :: string
  promptText :: string
  runway_model :: "string option"
  runway_resolution :: "string option"
  runway_watermark :: bool
  luma_model :: string
  luma_aspect_ratio :: string
  luma_loop :: "bool option"
  duration :: "nat option"
  seed :: "int option"

record LumaImageParams =
  prompt :: string
  aspect_ratio :: string
  model :: string
  image_ref :: "json option"
  style_ref :: "json option"
  character_ref :: "json option"
  modify_image_ref :: "json option"

text \<open>
  What the body of a tool can throw: an \<^verbatim>\<open>McpError\<close> of its own, or what the SDK call throws
  (an axios error with response status, response message and message; a \<^verbatim>\<open>LumaAI.APIError\<close>
  with status and message; anything else with a message).
\<close>

datatype thrown =
    Mcp McpError
  | Axios "nat option" "string option" string
  | LumaAPI "nat option" string
  | Other string

text \<open>
  The surroundings of one tool call: the environment variable, the answer of the SDK's
  create call (the new generation's \<^verbatim>\<open>id\<close>, or what it throws), the exchange's progress token
  and whether the exchange has a \<^verbatim>\<open>sendProgress\<close> method, and how the SDK's \<^verbatim>\<open>McpError\<close>
  renders its \<^verbatim>\<open>message\<close> property from code and message.
\<close>

record tool_env =
  LUMAAI_API_KEY :: "string option"
  create_result :: "thrown + string option"
  exchange_progressToken :: "string option"
  exchange_has_sendProgress :: bool
  mcp_message :: "ErrorCode \<Rightarrow> string \<Rightarrow> string"

text \<open>
  The effects of a tool call: the create request with its payload, a poll session started
  with its options, \<^verbatim>\<open>exchange.sendProgress\<close> called with token and value.
\<close>

datatype tool_event =
    Create "(string \<times> json) list"
  | StartLumaPoll LumaPollOptions
  | Progress json json

fun digit :: "nat \<Rightarrow> char" where
  "digit n = char_of (48 + n)"

text \<open>
  A natural number in decimal, as a template literal prints an integer below \<open>10\<^sup>2\<^sup>1\<close>.
  JavaScript prints larger numbers in exponent notation; they are outside this model.
\<close>

fun show_nat :: "nat \<Rightarrow> string" where
  "show_nat n = (if n < 10 then [digit n] else show_nat (n div 10) @ [digit (n mod 10)])"

fun join :: "string \<Rightarrow> string list \<Rightarrow> string" where
  "join sep [] = []"
| "join sep [x] = x"
| "join sep (x # y # ys) = x @ sep @ join sep (y # ys)"

fun thrown_message :: "tool_env \<Rightarrow> thrown \<Rightarrow> string" where
  "thrown_message env (Mcp (McpError c m)) = mcp_message env c m"
| "thrown_message env (Axios st rm m) = m"
| "thrown_message env (LumaAPI st m) = m"
| "thrown_message env (Other m) = m"

text \<open>The mapping of an HTTP status to an error code that the catch blocks share.\<close>

definition status_code :: "nat option \<Rightarrow> ErrorCode" where
  "status_code st =
     (if st = Some 401 \<or> st = Some 403 then InvalidRequest
      else if st = Some 400 \<or> st = Some 422 then InvalidParams
      else InternalError)"

text \<open>\<^verbatim>\<open>Object.keys(payload).forEach(key => payload[key] === undefined && delete payload[key])\<close>\<close>

definition drop_undefined :: "(string \<times> json) list \<Rightarrow> (string \<times> json) list" where
  "drop_undefined kvs = filter (\<lambda>kv. snd kv \<noteq> JUndefined) kvs"

definition initiated :: "tool_env \<Rightarrow> string \<Rightarrow> string \<Rightarrow> tool_event list" where
  "initiated env tid providerName =
     (if exchange_has_sendProgress env
      then [Progress (of_opt (exchange_progressToken env))
              (JObject [(''status'', JString ''INITIATED''), (''taskId'', JString tid),
                        (''provider'', JString providerName)])]
      else [])"

text \<open>
  The \<^verbatim>\<open>try\<close> block of \<^verbatim>\<open>generateTextToVideoTool\<close>: the effects so far, and the text it returns
  or what it throws. The RunwayML branch is commented out in the source.
\<close>

definition textToVideo_try :: "tool_env \<Rightarrow> TextToVideoParams \<Rightarrow> tool_event list \<times> (thrown + string)" where
  "textToVideo_try env v =
     (if provider v = ''lumaai'' then
        (if \<not> truthy_str (LUMAAI_API_KEY env) then
           ([], Inl (Mcp (McpError InternalError ''LUMAAI_API_KEY is not configured on the server.'')))
         else
           (let lumaPayload =
                  [(''prompt'', JString (promptText v)),
                   (''model'', JString (luma_model v)),
                   (''aspect_ratio'', JString (luma_aspect_ratio v))] @
                  (case luma_loop v of None \<Rightarrow> [] | Some b \<Rightarrow> [(''loop'', JBool b)]) @
                  (case duration v of
                     None \<Rightarrow> []
                   | Some d \<Rightarrow> if d \<noteq> 0 then [(''duration'', JString (show_nat d @ ''s''))] else [])
            in case create_result env of
                 Inl t \<Rightarrow> ([Create lumaPayload], Inl t)
               | Inr gid \<Rightarrow>
                   (let tid = (if truthy_str gid then the gid else [])
                    in if tid = [] then
                         ([Create lumaPayload],
                          Inl (Mcp (McpError InternalError ''Luma AI API did not return a generation ID.'')))
                       else
                         ([Create lumaPayload,
                           StartLumaPoll \<lparr>generationId = tid,
                                          progressToken = exchange_progressToken env,
                                          expectedAssetType = None\<rparr>] @
                          initiated env tid (provider v),
                          Inr (provider v @ '' text-to-video task initiated with ID: '' @ tid @
                               ''. Generation is in progress. Status updates will follow.'')))))
      else
        ([], Inl (Mcp (McpError InvalidParams (''Invalid provider: '' @ provider v)))))"

text \<open>The \<^verbatim>\<open>catch\<close> block of \<^verbatim>\<open>generateTextToVideoTool\<close>: the error it throws for a caught one.\<close>

definition textToVideo_catch :: "tool_env \<Rightarrow> TextToVideoParams \<Rightarrow> thrown \<Rightarrow> McpError" where
  "textToVideo_catch env v t =
     (case t of
        Axios st rm m \<Rightarrow>
          if provider v = ''runwayml'' then
            (let message = (if truthy_str rm then the rm else if m \<noteq> [] then m else ''Unknown Axios error'')
             in McpError (status_code st)
                  (''RunwayML API Error: '' @ message @ '' (Status: '' @
                   (case st of None \<Rightarrow> ''N/A'' | Some n \<Rightarrow> if n = 0 then ''N/A'' else show_nat n) @ '')''))
          else
            McpError InternalError
              (''Failed to initiate '' @ provider v @ '' text-to-video task: '' @ thrown_message env t)
      | LumaAPI st m \<Rightarrow>
          if provider v = ''lumaai'' then
            McpError (status_code st)
              (''Luma AI API Error: '' @ m @ '' (Status: '' @
               (case st of None \<Rightarrow> ''undefined'' | Some n \<Rightarrow> show_nat n) @ '')'')
          else
            McpError InternalError
              (''Failed to initiate '' @ provider v @ '' text-to-video task: '' @ thrown_message env t)
      | _ \<Rightarrow>
          McpError InternalError
            (''Failed to initiate '' @ provider v @ '' text-to-video task: '' @ thrown_message env t))"

definition generateTextToVideoTool ::
    "tool_env \<Rightarrow> string list + TextToVideoParams \<Rightarrow> tool_event list \<times> (McpError + string)" where
  "generateTextToVideoTool env parsed =
     (case parsed of
        Inl issues \<Rightarrow> ([], Inl (McpError InvalidParams (''Invalid arguments: '' @ join '', '' issues)))
      | Inr v \<Rightarrow>
          (case textToVideo_try env v of
             (evs, Inl t) \<Rightarrow> (evs, Inl (textToVideo_catch env v t))
           | (evs, Inr text) \<Rightarrow> (evs, Inr text)))"

text \<open>The \<^verbatim>\<open>try\<close> block of \<^verbatim>\<open>lumaGenerateImageTool\<close>, after the API key check.\<close>

definition lumaImage_try :: "tool_env \<Rightarrow> LumaImageParams \<Rightarrow> tool_event list \<times> (thrown + string)" where
  "lumaImage_try env v =
     (let opt = (\<lambda>x. case x of None \<Rightarrow> JUndefined | Some j \<Rightarrow> j);
          payload = drop_undefined
                      [(''prompt'', JString (prompt v)),
                       (''aspect_ratio'', JString (aspect_ratio v)),
                       (''model'', JString (model v)),
                       (''image_ref'', opt (image_ref v)),
                       (''style_ref'', opt (style_ref v)),
                       (''character_ref'', opt (character_ref v)),
                       (''modify_image_ref'', opt (modify_image_ref v))]
      in case create_result env of
           Inl t \<Rightarrow> ([Create payload], Inl t)
         | Inr gid \<Rightarrow>
             (let tid = (if truthy_str gid then the gid else [])
              in if tid = [] then
                   ([Create payload],
                    Inl (Mcp (McpError InternalError ''Luma AI API did not return a generation ID.'')))
                 else
                   ([Create payload] @
                    initiated env tid ''lumaai'' @
                    [StartLumaPoll \<lparr>generationId = tid,
                                    progressToken = exchange_progressToken env,
                                    expectedAssetType = None\<rparr>],
                    Inr (''Luma AI image generation task initiated with ID: '' @ tid @
                         ''. Generation is in progress. Status updates will follow.''))))"

definition lumaImage_catch :: "tool_env \<Rightarrow> thrown \<Rightarrow> McpError" where
  "lumaImage_catch env t =
     (case t of
        LumaAPI st m \<Rightarrow>
          McpError (status_code st)
            (''Luma AI API Error: '' @ m @ '' (Status: '' @
             (case st of None \<Rightarrow> ''undefined'' | Some n \<Rightarrow> show_nat n) @ '')'')
      | _ \<Rightarrow>
          McpError InternalError
            (''Failed to initiate Luma AI image generation: '' @ thrown_message env t))"

definition lumaGenerateImageTool ::
    "tool_env \<Rightarrow> string list + LumaImageParams \<Rightarrow> tool_event list \<times> (McpError + string)" where
  "lumaGenerateImageTool env parsed =
     (case parsed of
        Inl issues \<Rightarrow> ([], Inl (McpError InvalidParams (''Invalid arguments: '' @ join '', '' issues)))
      | Inr v \<Rightarrow>
          if \<not> truthy_str (LUMAAI_API_KEY env) then
            ([], Inl (McpError InternalError ''LUMAAI_API_KEY is not configured on the server.''))
          else
            (case lumaImage_try env v of
               (evs, Inl t) \<Rightarrow> (evs, Inl (lumaImage_catch env t))
             | (evs, Inr text) \<Rightarrow> (evs, Inr text)))"

text \<open>The poll sessions a tool call started.\<close>

fun started_polls :: "tool_event list \<Rightarrow> LumaPollOptions list" where
  "started_polls [] = []"
| "started_polls (StartLumaPoll opts # evs) = opts # started_polls evs"
| "started_polls (e # evs) = started_polls evs"

fun is_create :: "tool_event \<Rightarrow> bool" where
  "is_create (Create payload) = True"
| "is_create e = False"

section \<open>Reading a trace\<close>








fun is_emit :: "string \<Rightarrow> event \<Rightarrow> bool" where
  "is_emit st (Emit st' d) = (st' = st)"
| "is_emit st e = False"

text \<open>How often \<^verbatim>\<open>sendProgress\<close> was called with a status label.\<close>

definition emits :: "string \<Rightarrow> event list \<Rightarrow> nat" where
  "emits st tr = length (filter (is_emit st) tr)"

fun is_sent :: "event \<Rightarrow> bool" where
  "is_sent (Sent tok v) = True"
| "is_sent e = False"



text \<open>The messages handed to the notification channel.\<close>

definition sent_messages :: "event list \<Rightarrow> event list" where
  "sent_messages tr = filter is_sent tr"




text \<open>What \<^verbatim>\<open>sendProgress(status, data)\<close> adds to the trace in each poller.\<close>

definition luma_progress :: "LumaPollOptions \<Rightarrow> string \<Rightarrow> json \<Rightarrow> event list" where
  "luma_progress opts st d =
     Emit st d #
     (if truthy_str (progressToken opts)
      then [Sent (the (progressToken opts))
              (JObject ((''status'', JString st) # (if truthy d then [(''result'', d)] else [])))]
      else [])"

definition runway_progress :: "PollOptions \<Rightarrow> string \<Rightarrow> json \<Rightarrow> event list" where
  "runway_progress opts st d =
     Emit st d #
     (if truthy_str (runway_progressToken opts)
      then [Sent (the (runway_progressToken opts))
              (JObject ((''status'', JString st) # (if truthy d then [(''data'', d)] else [])))]
      else [])"





section \<open>The timer\<close>

lemma setInterval_cleared: "cleared s \<Longrightarrow> setInterval cb rs s = s"
  by (cases rs) simp_all







section \<open>The invariant\<close>











section \<open>One tick of pollLumaTask\<close>



lemma luma_sendProgress_eq:
  "luma_sendProgress opts st d s = s\<lparr>trace := trace s @ luma_progress opts st d\<rparr>"
  by (simp add: luma_sendProgress_def luma_progress_def log_def Let_def)



lemma luma_tick_fetch:
  "attempts s < MAX_POLLING_ATTEMPTS \<Longrightarrow>
   luma_tick opts r s =
     (case r of
        Returned g \<Rightarrow> luma_on_status opts g (s\<lparr>attempts := Suc (attempts s), trace := trace s @ [Fetch]\<rparr>)
      | Thrown e \<Rightarrow> luma_on_error opts e (s\<lparr>attempts := Suc (attempts s), trace := trace s @ [Fetch]\<rparr>))"
  by (simp add: luma_tick_def Let_def log_def split: fetch_result.split)


lemma luma_on_error_keep:
  "\<not> is_404 e \<Longrightarrow>
   luma_on_error opts e s =
     s\<lparr>trace := trace s @ luma_progress opts ''POLLING_ERROR'' (JObject [(''message'', JString (error_message e))])\<rparr>"
  by (simp add: luma_on_error_def luma_sendProgress_eq)

lemma luma_on_error_404:
  "is_404 e \<Longrightarrow> outcome s = None \<Longrightarrow>
   luma_on_error opts e s =
     s\<lparr>cleared := True,
       outcome := Some (Inl (McpError InvalidRequest (''Luma AI generation ID '' @ generationId opts @ '' not found.''))),
       trace := trace s @ ClearInterval #
                luma_progress opts ''FAILED''
                  (JObject [(''reason'', JString (''Generation ID '' @ generationId opts @ '' not found.''))]) @
                [Reject (McpError InvalidRequest (''Luma AI generation ID '' @ generationId opts @ '' not found.''))]\<rparr>"
  by (simp add: luma_on_error_def do_seq_def clearInterval_def reject_def settle_def log_def
      luma_sendProgress_eq)





lemma luma_on_status_completed_missing:
  "state g = Some ''completed'' \<Longrightarrow> \<not> truthy_str (fst (luma_asset (luma_expected opts) g)) \<Longrightarrow>
   outcome s = None \<Longrightarrow>
   luma_on_status opts g s =
     s\<lparr>cleared := True,
       outcome := Some (Inl (McpError InternalError
                    (''Luma AI task '' @ generationId opts @ '' Task completed but no '' @
                     asset_type_name (luma_expected opts) @ '' URL found.''))),
       trace := trace s @ ClearInterval #
                luma_progress opts ''FAILED''
                  (JObject [(''reason'', JString (''Task completed but no '' @
                               asset_type_name (luma_expected opts) @ '' URL found.''))]) @
                [Reject (McpError InternalError
                    (''Luma AI task '' @ generationId opts @ '' Task completed but no '' @
                     asset_type_name (luma_expected opts) @ '' URL found.''))]\<rparr>"
  by (simp add: luma_on_status_def do_seq_def clearInterval_def reject_def settle_def log_def
      luma_sendProgress_eq Let_def case_prod_beta)

lemma luma_on_status_failed:
  "state g = Some ''failed'' \<Longrightarrow> outcome s = None \<Longrightarrow>
   luma_on_status opts g s =
     s\<lparr>cleared := True,
       outcome := Some (Inl (McpError InternalError
                    (''Luma AI task '' @ generationId opts @ '' failed: '' @ failureReason g))),
       trace := trace s @ ClearInterval #
                luma_progress opts ''FAILED'' (JObject [(''reason'', JString (failureReason g))]) @
                [Reject (McpError InternalError
                    (''Luma AI task '' @ generationId opts @ '' failed: '' @ failureReason g))]\<rparr>"
  by (simp add: luma_on_status_def do_seq_def clearInterval_def reject_def settle_def log_def
      luma_sendProgress_eq)








section \<open>One tick of pollRunwayTask\<close>

lemma runway_sendProgress_eq:
  "runway_sendProgress opts st d s = s\<lparr>trace := trace s @ runway_progress opts st d\<rparr>"
  by (simp add: runway_sendProgress_def runway_progress_def log_def Let_def)




lemma runway_tick_fetch:
  "attempts s < MAX_POLLING_ATTEMPTS \<Longrightarrow>
   runway_tick opts r s =
     (case r of
        Returned t \<Rightarrow> runway_on_status opts t (s\<lparr>attempts := Suc (attempts s), trace := trace s @ [Fetch]\<rparr>)
      | Thrown e \<Rightarrow> runway_on_error opts e (s\<lparr>attempts := Suc (attempts s), trace := trace s @ [Fetch]\<rparr>))"
  by (simp add: runway_tick_def Let_def log_def split: fetch_result.split)


lemma runway_on_error_keep:
  "\<not> is_404 e \<Longrightarrow>
   runway_on_error opts e s =
     s\<lparr>trace := trace s @ runway_progress opts ''POLLING_ERROR'' (JObject [(''message'', JString (error_message e))])\<rparr>"
  by (simp add: runway_on_error_def runway_sendProgress_eq)

lemma runway_on_error_404:
  "is_404 e \<Longrightarrow> outcome s = None \<Longrightarrow>
   runway_on_error opts e s =
     s\<lparr>cleared := True,
       outcome := Some (Inl (McpError InvalidRequest (''RunwayML task ID '' @ taskId opts @ '' not found.''))),
       trace := trace s @ ClearInterval #
                runway_progress opts ''FAILED''
                  (JObject [(''reason'', JString (''Task ID '' @ taskId opts @ '' not found.''))]) @
                [Reject (McpError InvalidRequest (''RunwayML task ID '' @ taskId opts @ '' not found.''))]\<rparr>"
  by (simp add: runway_on_error_def do_seq_def clearInterval_def reject_def settle_def log_def
      runway_sendProgress_eq)




lemma runway_on_status_succeeded_missing:
  "task_status t = ''SUCCEEDED'' \<Longrightarrow> task_output t = None \<or> task_output t = Some [] \<Longrightarrow> outcome s = None \<Longrightarrow>
   runway_on_status opts t s =
     s\<lparr>cleared := True,
       outcome := Some (Inl (McpError InternalError
                    (''RunwayML task '' @ taskId opts @ '' succeeded but returned no output URL.''))),
       trace := trace s @ ClearInterval #
                runway_progress opts ''FAILED''
                  (JObject [(''reason'', JString ''Task succeeded but no output URL found.'')]) @
                [Reject (McpError InternalError
                    (''RunwayML task '' @ taskId opts @ '' succeeded but returned no output URL.''))]\<rparr>"
  by (auto simp add: runway_on_status_def do_seq_def clearInterval_def reject_def settle_def log_def
      runway_sendProgress_eq)






section \<open>Traces only grow\<close>

lemma settle_trace: "trace (settle v s) = trace s"
  by (simp add: settle_def split: option.split)

lemma luma_on_status_trace: "\<exists>evs. trace (luma_on_status opts g s) = trace s @ evs"
  by (simp add: luma_on_status_def do_seq_def clearInterval_def resolve_def reject_def log_def
      settle_trace luma_sendProgress_eq case_prod_beta Let_def)

lemma luma_on_error_trace: "\<exists>evs. trace (luma_on_error opts e s) = trace s @ evs"
  by (simp add: luma_on_error_def do_seq_def clearInterval_def reject_def log_def
      settle_trace luma_sendProgress_eq)

lemma luma_tick_fetch_trace:
  assumes "attempts s < MAX_POLLING_ATTEMPTS"
  shows "\<exists>evs. trace (luma_tick opts r s) = trace s @ Fetch # evs"
proof (cases r)
  case (Returned g)
  obtain evs where "trace (luma_on_status opts g (s\<lparr>attempts := Suc (attempts s), trace := trace s @ [Fetch]\<rparr>))
      = trace (s\<lparr>attempts := Suc (attempts s), trace := trace s @ [Fetch]\<rparr>) @ evs"
    using luma_on_status_trace by blast
  then show ?thesis using assms Returned by (simp add: luma_tick_fetch)
next
  case (Thrown e)
  obtain evs where "trace (luma_on_error opts e (s\<lparr>attempts := Suc (attempts s), trace := trace s @ [Fetch]\<rparr>))
      = trace (s\<lparr>attempts := Suc (attempts s), trace := trace s @ [Fetch]\<rparr>) @ evs"
    using luma_on_error_trace by blast
  then show ?thesis using assms Thrown by (simp add: luma_tick_fetch)
qed

lemma luma_tick_trace: "\<exists>evs. trace (luma_tick opts r s) = trace s @ evs"
proof (cases "attempts s < MAX_POLLING_ATTEMPTS")
  case True
  from luma_tick_fetch_trace[OF True] show ?thesis by blast
next
  case False
  then show ?thesis
    by (simp add: luma_tick_def Let_def do_seq_def clearInterval_def reject_def log_def
        settle_trace luma_sendProgress_eq)
qed

lemma runway_on_status_trace: "\<exists>evs. trace (runway_on_status opts t s) = trace s @ evs"
  by (simp add: runway_on_status_def do_seq_def clearInterval_def resolve_def reject_def log_def
      settle_trace runway_sendProgress_eq Let_def split: option.split list.split)

lemma runway_on_error_trace: "\<exists>evs. trace (runway_on_error opts e s) = trace s @ evs"
  by (simp add: runway_on_error_def do_seq_def clearInterval_def reject_def log_def
      settle_trace runway_sendProgress_eq)

lemma runway_tick_fetch_trace:
  assumes "attempts s < MAX_POLLING_ATTEMPTS"
  shows "\<exists>evs. trace (runway_tick opts r s) = trace s @ Fetch # evs"
proof (cases r)
  case (Returned t)
  obtain evs where "trace (runway_on_status opts t (s\<lparr>attempts := Suc (attempts s), trace := trace s @ [Fetch]\<rparr>))
      = trace (s\<lparr>attempts := Suc (attempts s), trace := trace s @ [Fetch]\<rparr>) @ evs"
    using runway_on_status_trace by blast
  then show ?thesis using assms Returned by (simp add: runway_tick_fetch)
next
  case (Thrown e)
  obtain evs where "trace (runway_on_error opts e (s\<lparr>attempts := Suc (attempts s), trace := trace s @ [Fetch]\<rparr>))
      = trace (s\<lparr>attempts := Suc (attempts s), trace := trace s @ [Fetch]\<rparr>) @ evs"
    using runway_on_error_trace by blast
  then show ?thesis using assms Thrown by (simp add: runway_tick_fetch)
qed

lemma runway_tick_trace: "\<exists>evs. trace (runway_tick opts r s) = trace s @ evs"
proof (cases "attempts s < MAX_POLLING_ATTEMPTS")
  case True
  from runway_tick_fetch_trace[OF True] show ?thesis by blast
next
  case False
  then show ?thesis
    by (simp add: runway_tick_def Let_def do_seq_def clearInterval_def reject_def log_def
        settle_trace runway_sendProgress_eq)
qed

lemma setInterval_trace:
  assumes "\<And>r s. \<exists>evs. trace (cb r s) = trace s @ evs"
  shows "\<exists>evs. trace (setInterval cb rs s) = trace s @ evs"
proof (induction rs arbitrary: s)
  case Nil
  show ?case by simp
next
  case (Cons r rs)
  show ?case
  proof (cases "cleared s")
    case True
    then show ?thesis by simp
  next
    case False
    obtain evs1 where e1: "trace (cb r s) = trace s @ evs1" using assms by blast
    obtain evs2 where "trace (setInterval cb rs (cb r s)) = trace (cb r s) @ evs2"
      using Cons.IH by blast
    then have "trace (setInterval cb (r # rs) s) = trace s @ (evs1 @ evs2)"
      using False e1 by simp
    then show ?thesis by blast
  qed
qed

section \<open>Messages on the channel\<close>

lemma sent_messages_append: "sent_messages (xs @ ys) = sent_messages xs @ sent_messages ys"
  by (simp add: sent_messages_def)

lemma luma_tick_sent:
  assumes "progressToken opts = None"
  shows "sent_messages (trace (luma_tick opts r s)) = sent_messages (trace s)"
  using assms
  by (simp add: luma_tick_def luma_on_status_def luma_on_error_def Let_def do_seq_def
      clearInterval_def resolve_def reject_def log_def settle_trace luma_sendProgress_eq
      luma_progress_def sent_messages_def case_prod_beta split: fetch_result.split)

lemma runway_tick_sent:
  assumes "runway_progressToken opts = None"
  shows "sent_messages (trace (runway_tick opts r s)) = sent_messages (trace s)"
  using assms
  by (simp add: runway_tick_def runway_on_status_def runway_on_error_def Let_def do_seq_def
      clearInterval_def resolve_def reject_def log_def settle_trace runway_sendProgress_eq
      runway_progress_def sent_messages_def split: fetch_result.split option.split list.split)

lemma setInterval_sent:
  assumes "\<And>r s. sent_messages (trace (cb r s)) = sent_messages (trace s)"
  shows "sent_messages (trace (setInterval cb rs s)) = sent_messages (trace s)"
  by (induction rs arbitrary: s) (simp_all add: assms)


section \<open>Counting progress calls\<close>











section \<open>Terminal statuses\<close>




section \<open>Sessions that run into the attempt bound, or end just before it\<close>










section \<open>Every session keeps the invariant\<close>







section \<open>A success status without an asset field\<close>

text \<open>
  A tick that fetches (fewer than \<open>MAX_POLLING_ATTEMPTS\<close> attempts so far, promise pending)
  and gets a success status whose asset field is missing ends the session as failed. For
  Luma: state \<^verbatim>\<open>completed\<close> and the asset of the expected kind absent, null or empty. For
  Runway: status \<^verbatim>\<open>SUCCEEDED\<close> and the output list absent or empty; a list that is not
  empty is not looked into.
\<close>

lemma success_without_asset_field:
  "(attempts s < MAX_POLLING_ATTEMPTS \<and> outcome s = None \<and> state g = Some ''completed'' \<and>
    \<not> truthy_str (fst (luma_asset (luma_expected lopts) g)) \<longrightarrow>
      luma_tick lopts (Returned g) s =
        s\<lparr>attempts := Suc (attempts s), cleared := True,
          outcome := Some (Inl (McpError InternalError
                       (''Luma AI task '' @ generationId lopts @ '' Task completed but no '' @
                        asset_type_name (luma_expected lopts) @ '' URL found.''))),
          trace := trace s @ Fetch # ClearInterval #
                   luma_progress lopts ''FAILED''
                     (JObject [(''reason'', JString (''Task completed but no '' @
                                  asset_type_name (luma_expected lopts) @ '' URL found.''))]) @
                   [Reject (McpError InternalError
                       (''Luma AI task '' @ generationId lopts @ '' Task completed but no '' @
                        asset_type_name (luma_expected lopts) @ '' URL found.''))]\<rparr>) \<and>
   (attempts s < MAX_POLLING_ATTEMPTS \<and> outcome s = None \<and> task_status t = ''SUCCEEDED'' \<and>
    (task_output t = None \<or> task_output t = Some []) \<longrightarrow>
      runway_tick ropts (Returned t) s =
        s\<lparr>attempts := Suc (attempts s), cleared := True,
          outcome := Some (Inl (McpError InternalError
                       (''RunwayML task '' @ taskId ropts @ '' succeeded but returned no output URL.''))),
          trace := trace s @ Fetch # ClearInterval #
                   runway_progress ropts ''FAILED''
                     (JObject [(''reason'', JString ''Task succeeded but no output URL found.'')]) @
                   [Reject (McpError InternalError
                       (''RunwayML task '' @ taskId ropts @ '' succeeded but returned no output URL.''))]\<rparr>)"
proof -
  let ?s = "s\<lparr>attempts := Suc (attempts s), trace := trace s @ [Fetch]\<rparr>"
  have l: "luma_tick lopts (Returned g) s = luma_on_status lopts g ?s"
      and r: "runway_tick ropts (Returned t) s = runway_on_status ropts t ?s"
    if "attempts s < MAX_POLLING_ATTEMPTS"
    using that by (simp_all add: luma_tick_fetch runway_tick_fetch)
  have o: "outcome ?s = None" if "outcome s = None" using that by simp
  show ?thesis
    using l r luma_on_status_completed_missing[of g lopts ?s]
      runway_on_status_succeeded_missing[of t ?s ropts] o
    by simp
qed

section \<open>The claims\<close>

text \<open>
  C1, as the code has it. Every tick adds one to \<^verbatim>\<open>attempts\<close>, whatever the status request
  then returns or throws (and also in the tick that times out, which makes no request): the
  counter is incremented at the top of the callback, before the request. A tick whose fetch
  throws counts toward \<open>MAX_POLLING_ATTEMPTS\<close> like any other. Both pollers.
\<close>

theorem C1_every_tick_counts:
  "attempts (luma_tick lopts lr s) = Suc (attempts s) \<and>
   attempts (runway_tick ropts rr s) = Suc (attempts s)"
proof -
  have a: "attempts (settle v x) = attempts x" for v x
    by (simp add: settle_def split: option.split)
  have l: "attempts (luma_tick lopts lr s) = Suc (attempts s)"
    by (simp add: luma_tick_def luma_on_status_def luma_on_error_def Let_def do_seq_def
        clearInterval_def resolve_def reject_def log_def a luma_sendProgress_eq
        case_prod_beta split: fetch_result.split)
  have r: "attempts (runway_tick ropts rr s) = Suc (attempts s)"
    by (simp add: runway_tick_def runway_on_status_def runway_on_error_def Let_def do_seq_def
        clearInterval_def resolve_def reject_def log_def a runway_sendProgress_eq
        split: fetch_result.split option.split list.split)
  from l r show ?thesis by simp
qed

text \<open>
  C1, as the claim states it, fails: a tick whose fetch throws a transport error does not
  leave \<^verbatim>\<open>attempts\<close> unchanged. At the first tick of a session the request throws a
  connection error; afterwards the counter is 1, not 0.
\<close>

theorem C1_counterexample:
  "attempts (luma_tick \<lparr>generationId = ''g1'', progressToken = None, expectedAssetType = None\<rparr>
              (Thrown (OtherError ''ECONNRESET'')) init_session) \<noteq> attempts init_session \<and>
   attempts (runway_tick \<lparr>taskId = ''t1'', runway_progressToken = None\<rparr>
              (Thrown (OtherError ''ECONNRESET'')) init_session) \<noteq> attempts init_session"
  by (simp add: luma_tick_def luma_on_error_def runway_tick_def runway_on_error_def Let_def
      luma_sendProgress_def runway_sendProgress_def log_def init_session_def
      MAX_POLLING_ATTEMPTS_def)




text \<open>
  C3, at the failing input. A Runway snapshot with status \<^verbatim>\<open>SUCCEEDED\<close> whose output list
  holds one element, the empty string: the extracted asset URL (the first element) is empty,
  yet the tick clears the timer, calls \<^verbatim>\<open>sendProgress('SUCCEEDED', {videoUrl: ''})\<close> and
  resolves the promise with the empty string; no \<^verbatim>\<open>FAILED\<close> event is emitted and the promise
  is not rejected. \<^verbatim>\<open>pollRunwayTask\<close> tests only that the list is present and not empty, not
  the URL it takes from it. \<^verbatim>\<open>pollLumaTask\<close> tests the URL itself: the same empty URL in
  \<^verbatim>\<open>assets.video\<close> of a \<^verbatim>\<open>completed\<close> snapshot ends the session as failed.
\<close>

theorem C3_runway_empty_url_resolves:
  "pollRunwayTask \<lparr>taskId = ''t1'', runway_progressToken = Some ''tok''\<rparr>
     [Returned \<lparr>task_status = ''SUCCEEDED'', task_output = Some [[]]\<rparr>]
   = \<lparr>attempts = 1, cleared = True, outcome = Some (Inr []),
      trace = [Fetch, ClearInterval,
               Emit ''SUCCEEDED'' (JObject [(''videoUrl'', JString [])]),
               Sent ''tok'' (JObject [(''status'', JString ''SUCCEEDED''),
                                      (''data'', JObject [(''videoUrl'', JString [])])]),
               Resolve []]\<rparr> \<and>
   emits ''FAILED'' (trace (pollRunwayTask \<lparr>taskId = ''t1'', runway_progressToken = Some ''tok''\<rparr>
     [Returned \<lparr>task_status = ''SUCCEEDED'', task_output = Some [[]]\<rparr>])) = 0 \<and>
   pollLumaTask \<lparr>generationId = ''g1'', progressToken = Some ''tok'', expectedAssetType = None\<rparr>
     [Returned \<lparr>state = Some ''completed'',
                 assets = Some \<lparr>assets_video = Some [], assets_image = None\<rparr>,
                 failure_reason = None\<rparr>]
   = \<lparr>attempts = 1, cleared = True,
      outcome = Some (Inl (McpError InternalError
                  ''Luma AI task g1 Task completed but no video URL found.'')),
      trace = [Fetch, ClearInterval,
               Emit ''FAILED'' (JObject [(''reason'', JString ''Task completed but no video URL found.'')]),
               Sent ''tok'' (JObject [(''status'', JString ''FAILED''),
                  (''result'', JObject [(''reason'', JString ''Task completed but no video URL found.'')])]),
               Reject (McpError InternalError
                  ''Luma AI task g1 Task completed but no video URL found.'')]\<rparr>"
  by (simp add: pollRunwayTask_def pollLumaTask_def init_session_def MAX_POLLING_ATTEMPTS_def
      runway_tick_def runway_on_status_def runway_sendProgress_def
      luma_tick_def luma_on_status_def luma_sendProgress_def luma_asset_def luma_expected_def
      do_seq_def clearInterval_def resolve_def reject_def settle_def log_def Let_def emits_def)

text \<open>
  C4. When the timer is running and a tick's status request throws the SDK's \<^verbatim>\<open>APIError\<close>
  with HTTP status 404, at any attempt count that still fetches, the session ends at once:
  the tick fetches, clears the timer, calls \<^verbatim>\<open>sendProgress('FAILED', {reason})\<close> with a
  not-found reason and rejects the promise with \<^verbatim>\<open>InvalidRequest\<close>; whatever the provider
  would answer afterwards, no later tick runs, so no further fetch is issued. Both pollers.
\<close>

theorem C4_not_found_ends_session:
  "(\<not> cleared s \<and> attempts s < MAX_POLLING_ATTEMPTS \<and> outcome s = None \<longrightarrow>
      setInterval (luma_tick lopts) (Thrown (APIError (Some 404) m) # lmore) s =
        s\<lparr>attempts := Suc (attempts s), cleared := True,
          outcome := Some (Inl (McpError InvalidRequest
                       (''Luma AI generation ID '' @ generationId lopts @ '' not found.''))),
          trace := trace s @ Fetch # ClearInterval #
                   luma_progress lopts ''FAILED''
                     (JObject [(''reason'', JString (''Generation ID '' @ generationId lopts @ '' not found.''))]) @
                   [Reject (McpError InvalidRequest
                       (''Luma AI generation ID '' @ generationId lopts @ '' not found.''))]\<rparr>) \<and>
   (\<not> cleared s \<and> attempts s < MAX_POLLING_ATTEMPTS \<and> outcome s = None \<longrightarrow>
      setInterval (runway_tick ropts) (Thrown (APIError (Some 404) m) # rmore) s =
        s\<lparr>attempts := Suc (attempts s), cleared := True,
          outcome := Some (Inl (McpError InvalidRequest
                       (''RunwayML task ID '' @ taskId ropts @ '' not found.''))),
          trace := trace s @ Fetch # ClearInterval #
                   runway_progress ropts ''FAILED''
                     (JObject [(''reason'', JString (''Task ID '' @ taskId ropts @ '' not found.''))]) @
                   [Reject (McpError InvalidRequest
                       (''RunwayML task ID '' @ taskId ropts @ '' not found.''))]\<rparr>)"
proof -
  let ?s = "s\<lparr>attempts := Suc (attempts s), trace := trace s @ [Fetch]\<rparr>"
  let ?e = "APIError (Some 404) m"
  have e: "is_404 ?e" by simp
  have l: "luma_tick lopts (Thrown ?e) s = luma_on_error lopts ?e ?s"
      and r: "runway_tick ropts (Thrown ?e) s = runway_on_error ropts ?e ?s"
    if "attempts s < MAX_POLLING_ATTEMPTS"
    using that by (simp_all add: luma_tick_fetch runway_tick_fetch)
  have o: "outcome ?s = None" if "outcome s = None" using that by simp
  show ?thesis
    using l r luma_on_error_404[OF e, of ?s lopts] runway_on_error_404[OF e, of ?s ropts] o
    by (simp add: setInterval_cleared)
qed

theorem C4_witness:
  "\<not> cleared init_session \<and> attempts init_session < MAX_POLLING_ATTEMPTS \<and> outcome init_session = None \<and>
   pollLumaTask \<lparr>generationId = ''g1'', progressToken = None, expectedAssetType = None\<rparr>
     [Thrown (APIError (Some 404) ''Not Found''),
      Returned \<lparr>state = Some ''completed'',
                 assets = Some \<lparr>assets_video = Some ''https://x/v.mp4'', assets_image = None\<rparr>,
                 failure_reason = None\<rparr>]
   = \<lparr>attempts = 1, cleared = True,
      outcome = Some (Inl (McpError InvalidRequest ''Luma AI generation ID g1 not found.'')),
      trace = [Fetch, ClearInterval,
               Emit ''FAILED'' (JObject [(''reason'', JString ''Generation ID g1 not found.'')]),
               Reject (McpError InvalidRequest ''Luma AI generation ID g1 not found.'')]\<rparr> \<and>
   pollRunwayTask \<lparr>taskId = ''t1'', runway_progressToken = Some ''tok''\<rparr>
     [Thrown (APIError (Some 404) ''Not Found''),
      Returned \<lparr>task_status = ''SUCCEEDED'', task_output = Some [''https://x/video.mp4'']\<rparr>]
   = \<lparr>attempts = 1, cleared = True,
      outcome = Some (Inl (McpError InvalidRequest ''RunwayML task ID t1 not found.'')),
      trace = [Fetch, ClearInterval,
               Emit ''FAILED'' (JObject [(''reason'', JString ''Task ID t1 not found.'')]),
               Sent ''tok'' (JObject [(''status'', JString ''FAILED''),
                                      (''data'', JObject [(''reason'', JString ''Task ID t1 not found.'')])]),
               Reject (McpError InvalidRequest ''RunwayML task ID t1 not found.'')]\<rparr>"
  using C4_not_found_ends_session
    [of init_session "\<lparr>generationId = ''g1'', progressToken = None, expectedAssetType = None\<rparr>"
        "''Not Found''"
        "[Returned \<lparr>state = Some ''completed'',
                 assets = Some \<lparr>assets_video = Some ''https://x/v.mp4'', assets_image = None\<rparr>,
                 failure_reason = None\<rparr>]"
        "\<lparr>taskId = ''t1'', runway_progressToken = Some ''tok''\<rparr>"
        "[Returned \<lparr>task_status = ''SUCCEEDED'', task_output = Some [''https://x/video.mp4'']\<rparr>]"]
  by (simp add: init_session_def MAX_POLLING_ATTEMPTS_def pollLumaTask_def pollRunwayTask_def
      luma_progress_def runway_progress_def)

text \<open>
  C5. When the timer is running and the status request of attempt \<open>k\<close> throws anything
  other than the SDK's 404, with \<open>k\<close> below \<open>MAX_POLLING_ATTEMPTS\<close>, the session goes on:
  the tick fetches and calls \<^verbatim>\<open>sendProgress('POLLING_ERROR', {message})\<close> with the error's
  message, and changes nothing else (the timer stays, the promise stays as it was). At the
  next interval the first thing that happens is the fetch of attempt \<open>k + 1\<close>, and every
  event of the rest of the session (a terminal progress event among them) comes after the
  \<^verbatim>\<open>POLLING_ERROR\<close> event in the trace. Both pollers.
\<close>

theorem C5_transient_error_keeps_polling:
  "(\<not> cleared s \<and> Suc (attempts s) < MAX_POLLING_ATTEMPTS \<and> \<not> is_404 e \<longrightarrow>
      luma_tick lopts (Thrown e) s =
        s\<lparr>attempts := Suc (attempts s),
          trace := trace s @ Fetch #
                   luma_progress lopts ''POLLING_ERROR'' (JObject [(''message'', JString (error_message e))])\<rparr> \<and>
      (\<exists>later. trace (setInterval (luma_tick lopts) (lr # lmore) (luma_tick lopts (Thrown e) s)) =
                 trace (luma_tick lopts (Thrown e) s) @ Fetch # later)) \<and>
   (\<not> cleared s \<and> Suc (attempts s) < MAX_POLLING_ATTEMPTS \<and> \<not> is_404 e \<longrightarrow>
      runway_tick ropts (Thrown e) s =
        s\<lparr>attempts := Suc (attempts s),
          trace := trace s @ Fetch #
                   runway_progress ropts ''POLLING_ERROR'' (JObject [(''message'', JString (error_message e))])\<rparr> \<and>
      (\<exists>later. trace (setInterval (runway_tick ropts) (rr # rmore) (runway_tick ropts (Thrown e) s)) =
                 trace (runway_tick ropts (Thrown e) s) @ Fetch # later))"
proof -
  have next_fetch: "\<exists>later. trace (setInterval cb (r # rs) s1) = trace s1 @ Fetch # later"
    if tr: "\<And>r s. \<exists>evs. trace (cb r s) = trace s @ evs"
      and f: "\<exists>evs. trace (cb r s1) = trace s1 @ Fetch # evs"
      and c: "\<not> cleared s1"
    for cb :: "'r \<Rightarrow> session \<Rightarrow> session" and r rs s1
  proof -
    from f obtain evs1 where e1: "trace (cb r s1) = trace s1 @ Fetch # evs1" by blast
    obtain evs2 where "trace (setInterval cb rs (cb r s1)) = trace (cb r s1) @ evs2"
      using setInterval_trace[of cb rs "cb r s1"] tr by blast
    then have "trace (setInterval cb (r # rs) s1) = trace s1 @ Fetch # (evs1 @ evs2)"
      using c e1 by simp
    then show ?thesis by blast
  qed
  have lt: "attempts s < MAX_POLLING_ATTEMPTS" if "Suc (attempts s) < MAX_POLLING_ATTEMPTS"
    using that by simp
  have l1: "luma_tick lopts (Thrown e) s =
        s\<lparr>attempts := Suc (attempts s),
          trace := trace s @ Fetch #
                   luma_progress lopts ''POLLING_ERROR'' (JObject [(''message'', JString (error_message e))])\<rparr>"
    if "Suc (attempts s) < MAX_POLLING_ATTEMPTS" "\<not> is_404 e"
    using that by (simp add: luma_tick_fetch[OF lt] luma_on_error_keep)
  have r1: "runway_tick ropts (Thrown e) s =
        s\<lparr>attempts := Suc (attempts s),
          trace := trace s @ Fetch #
                   runway_progress ropts ''POLLING_ERROR'' (JObject [(''message'', JString (error_message e))])\<rparr>"
    if "Suc (attempts s) < MAX_POLLING_ATTEMPTS" "\<not> is_404 e"
    using that by (simp add: runway_tick_fetch[OF lt] runway_on_error_keep)
  have l2: "\<exists>later. trace (setInterval (luma_tick lopts) (lr # lmore) (luma_tick lopts (Thrown e) s)) =
                 trace (luma_tick lopts (Thrown e) s) @ Fetch # later"
    if h: "\<not> cleared s" "Suc (attempts s) < MAX_POLLING_ATTEMPTS" "\<not> is_404 e"
  proof (rule next_fetch)
    show "\<exists>evs. trace (luma_tick lopts r s) = trace s @ evs" for r s
      by (rule luma_tick_trace)
    have "attempts (luma_tick lopts (Thrown e) s) < MAX_POLLING_ATTEMPTS"
      using h by (simp add: l1)
    then show "\<exists>evs. trace (luma_tick lopts lr (luma_tick lopts (Thrown e) s)) =
        trace (luma_tick lopts (Thrown e) s) @ Fetch # evs"
      by (rule luma_tick_fetch_trace)
    show "\<not> cleared (luma_tick lopts (Thrown e) s)" using h by (simp add: l1)
  qed
  have r2: "\<exists>later. trace (setInterval (runway_tick ropts) (rr # rmore) (runway_tick ropts (Thrown e) s)) =
                 trace (runway_tick ropts (Thrown e) s) @ Fetch # later"
    if h: "\<not> cleared s" "Suc (attempts s) < MAX_POLLING_ATTEMPTS" "\<not> is_404 e"
  proof (rule next_fetch)
    show "\<exists>evs. trace (runway_tick ropts r s) = trace s @ evs" for r s
      by (rule runway_tick_trace)
    have "attempts (runway_tick ropts (Thrown e) s) < MAX_POLLING_ATTEMPTS"
      using h by (simp add: r1)
    then show "\<exists>evs. trace (runway_tick ropts rr (runway_tick ropts (Thrown e) s)) =
        trace (runway_tick ropts (Thrown e) s) @ Fetch # evs"
      by (rule runway_tick_fetch_trace)
    show "\<not> cleared (runway_tick ropts (Thrown e) s)" using h by (simp add: r1)
  qed
  show ?thesis using l1 l2 r1 r2 by blast
qed

theorem C5_witness:
  "\<not> cleared init_session \<and> Suc (attempts init_session) < MAX_POLLING_ATTEMPTS \<and>
   \<not> is_404 (APIError (Some 503) ''Service Unavailable'') \<and>
   luma_tick \<lparr>generationId = ''g1'', progressToken = None, expectedAssetType = None\<rparr>
     (Thrown (APIError (Some 503) ''Service Unavailable'')) init_session
   = \<lparr>attempts = 1, cleared = False, outcome = None,
      trace = [Fetch, Emit ''POLLING_ERROR'' (JObject [(''message'', JString ''Service Unavailable'')])]\<rparr> \<and>
   runway_tick \<lparr>taskId = ''t1'', runway_progressToken = None\<rparr>
     (Thrown (APIError (Some 503) ''Service Unavailable'')) init_session
   = \<lparr>attempts = 1, cleared = False, outcome = None,
      trace = [Fetch, Emit ''POLLING_ERROR'' (JObject [(''message'', JString ''Service Unavailable'')])]\<rparr>"
  using C5_transient_error_keeps_polling
    [of init_session "APIError (Some 503) ''Service Unavailable''"
        "\<lparr>generationId = ''g1'', progressToken = None, expectedAssetType = None\<rparr>" _ _
        "\<lparr>taskId = ''t1'', runway_progressToken = None\<rparr>"]
  by (simp add: init_session_def MAX_POLLING_ATTEMPTS_def luma_progress_def runway_progress_def)



text \<open>
  C7. A poll session started without a progress token sends nothing to the notification
  channel: each call of the poller's \<^verbatim>\<open>sendProgress\<close>, for any status label and payload,
  leaves the session as it was apart from the record of the call itself, and the trace of a
  whole session holds no message. Both pollers.
\<close>

theorem C7_no_token_no_message:
  "(progressToken lopts = None \<longrightarrow>
      luma_sendProgress lopts st d s = log (Emit st d) s \<and>
      sent_messages (trace (luma_sendProgress lopts st d s)) = sent_messages (trace s) \<and>
      sent_messages (trace (pollLumaTask lopts lrs)) = []) \<and>
   (runway_progressToken ropts = None \<longrightarrow>
      runway_sendProgress ropts st d s = log (Emit st d) s \<and>
      sent_messages (trace (runway_sendProgress ropts st d s)) = sent_messages (trace s) \<and>
      sent_messages (trace (pollRunwayTask ropts rrs)) = [])"
proof -
  have l: "sent_messages (trace (pollLumaTask lopts lrs)) = []" if "progressToken lopts = None"
    unfolding pollLumaTask_def
    using setInterval_sent[of "luma_tick lopts" lrs init_session] luma_tick_sent[OF that]
    by (simp add: init_session_def sent_messages_def)
  have r: "sent_messages (trace (pollRunwayTask ropts rrs)) = []" if "runway_progressToken ropts = None"
    unfolding pollRunwayTask_def
    using setInterval_sent[of "runway_tick ropts" rrs init_session] runway_tick_sent[OF that]
    by (simp add: init_session_def sent_messages_def)
  show ?thesis
    using l r
    by (simp add: luma_sendProgress_def runway_sendProgress_def log_def sent_messages_def)
qed

theorem C7_witness:
  "progressToken \<lparr>generationId = ''g1'', progressToken = None, expectedAssetType = None\<rparr> = None \<and>
   sent_messages (trace (pollLumaTask \<lparr>generationId = ''g1'', progressToken = None, expectedAssetType = None\<rparr>
      [Returned \<lparr>state = Some ''queued'', assets = None, failure_reason = None\<rparr>,
       Returned \<lparr>state = Some ''failed'', assets = None, failure_reason = None\<rparr>])) = [] \<and>
   runway_progressToken \<lparr>taskId = ''t1'', runway_progressToken = None\<rparr> = None \<and>
   sent_messages (trace (pollRunwayTask \<lparr>taskId = ''t1'', runway_progressToken = None\<rparr>
      [Returned \<lparr>task_status = ''RUNNING'', task_output = None\<rparr>,
       Returned \<lparr>task_status = ''SUCCEEDED'', task_output = Some [''https://x/video.mp4'']\<rparr>])) = []"
  using C7_no_token_no_message
    [of "\<lparr>generationId = ''g1'', progressToken = None, expectedAssetType = None\<rparr>" _ _ _
        "[Returned \<lparr>state = Some ''queued'', assets = None, failure_reason = None\<rparr>,
          Returned \<lparr>state = Some ''failed'', assets = None, failure_reason = None\<rparr>]"
        "\<lparr>taskId = ''t1'', runway_progressToken = None\<rparr>"
        "[Returned \<lparr>task_status = ''RUNNING'', task_output = None\<rparr>,
          Returned \<lparr>task_status = ''SUCCEEDED'', task_output = Some [''https://x/video.mp4'']\<rparr>]"]
  by simp

text \<open>
  C8. A tick that fetches (fewer than \<open>MAX_POLLING_ATTEMPTS\<close> attempts so far, promise
  pending) and gets a Luma snapshot in state \<^verbatim>\<open>failed\<close> ends the session as failed: it
  clears the timer, calls \<^verbatim>\<open>sendProgress('FAILED', {reason})\<close> and rejects with the message
  \<^verbatim>\<open>Luma AI task <id> failed: <reason>\<close>, the same reason in both. The reason is the snapshot's
  \<^verbatim>\<open>failure_reason\<close> when that is present and not empty, and \<^verbatim>\<open>Unknown failure reason\<close> when it
  is absent.
\<close>

theorem C8_luma_failure_reason:
  "(attempts s < MAX_POLLING_ATTEMPTS \<and> outcome s = None \<and> state g = Some ''failed'' \<longrightarrow>
      luma_tick lopts (Returned g) s =
        s\<lparr>attempts := Suc (attempts s), cleared := True,
          outcome := Some (Inl (McpError InternalError
                       (''Luma AI task '' @ generationId lopts @ '' failed: '' @ failureReason g))),
          trace := trace s @ Fetch # ClearInterval #
                   luma_progress lopts ''FAILED'' (JObject [(''reason'', JString (failureReason g))]) @
                   [Reject (McpError InternalError
                       (''Luma AI task '' @ generationId lopts @ '' failed: '' @ failureReason g))]\<rparr>) \<and>
   (failure_reason g = Some fr \<and> fr \<noteq> [] \<longrightarrow> failureReason g = fr) \<and>
   (failure_reason g = None \<longrightarrow> failureReason g = ''Unknown failure reason'')"
proof -
  let ?s = "s\<lparr>attempts := Suc (attempts s), trace := trace s @ [Fetch]\<rparr>"
  have l: "luma_tick lopts (Returned g) s = luma_on_status lopts g ?s"
    if "attempts s < MAX_POLLING_ATTEMPTS"
    using that by (simp add: luma_tick_fetch)
  have o: "outcome ?s = None" if "outcome s = None" using that by simp
  show ?thesis
    using l luma_on_status_failed[of g ?s lopts] o
    by (simp add: failureReason_def)
qed

theorem C8_witness:
  "attempts init_session < MAX_POLLING_ATTEMPTS \<and> outcome init_session = None \<and>
   luma_tick \<lparr>generationId = ''g1'', progressToken = Some ''tok'', expectedAssetType = None\<rparr>
     (Returned \<lparr>state = Some ''failed'', assets = None, failure_reason = Some ''moderation''\<rparr>) init_session
   = \<lparr>attempts = 1, cleared = True,
      outcome = Some (Inl (McpError InternalError ''Luma AI task g1 failed: moderation'')),
      trace = [Fetch, ClearInterval,
               Emit ''FAILED'' (JObject [(''reason'', JString ''moderation'')]),
               Sent ''tok'' (JObject [(''status'', JString ''FAILED''),
                                      (''result'', JObject [(''reason'', JString ''moderation'')])]),
               Reject (McpError InternalError ''Luma AI task g1 failed: moderation'')]\<rparr> \<and>
   outcome (luma_tick \<lparr>generationId = ''g1'', progressToken = Some ''tok'', expectedAssetType = None\<rparr>
     (Returned \<lparr>state = Some ''failed'', assets = None, failure_reason = None\<rparr>) init_session)
   = Some (Inl (McpError InternalError ''Luma AI task g1 failed: Unknown failure reason''))"
  using C8_luma_failure_reason
    [of init_session "\<lparr>state = Some ''failed'', assets = None, failure_reason = Some ''moderation''\<rparr>"
        "\<lparr>generationId = ''g1'', progressToken = Some ''tok'', expectedAssetType = None\<rparr>" "''moderation''"]
    C8_luma_failure_reason
    [of init_session "\<lparr>state = Some ''failed'', assets = None, failure_reason = None\<rparr>"
        "\<lparr>generationId = ''g1'', progressToken = Some ''tok'', expectedAssetType = None\<rparr>" "''x''"]
  by (simp add: init_session_def MAX_POLLING_ATTEMPTS_def luma_progress_def)

text \<open>
  C9, at the failing input. Provider omitted, so the schema default \<^verbatim>\<open>runwayml\<close> is the
  validated provider: the tool creates no job and starts no poll session, and the error it
  throws carries the code \<^verbatim>\<open>InternalError\<close>, not \<^verbatim>\<open>InvalidParams\<close>. The \<^verbatim>\<open>InvalidParams\<close>
  error of the invalid-provider branch is thrown inside the tool's own \<^verbatim>\<open>try\<close> block; its
  \<^verbatim>\<open>catch\<close> block wraps it into \<^verbatim>\<open>Failed to initiate runwayml text-to-video task: ...\<close>.
\<close>

theorem C9_runwayml_error_is_rewrapped:
  "providerEnum JUndefined = Some ''runwayml'' \<and>
   generateTextToVideoTool env (Inr (v\<lparr>provider := the (providerEnum JUndefined)\<rparr>)) =
     ([], Inl (McpError InternalError
                 (''Failed to initiate runwayml text-to-video task: '' @
                  mcp_message env InvalidParams ''Invalid provider: runwayml'')))"
  by (simp add: generateTextToVideoTool_def textToVideo_try_def textToVideo_catch_def)

text \<open>
  C10. \<^verbatim>\<open>lumaGenerateImageTool\<close>, once the job is created, starts one poll session, and passes
  it no expected asset type. A poll session without an expected asset type reads
  \<^verbatim>\<open>assets.video\<close>: when a tick that fetches (fewer than \<open>MAX_POLLING_ATTEMPTS\<close> attempts so
  far, promise pending) gets a \<^verbatim>\<open>completed\<close> snapshot whose assets have no video, whatever
  their image field holds, the session ends as failed with the reason
  \<^verbatim>\<open>Task completed but no video URL found.\<close>
\<close>

theorem C10_image_tool_polls_for_video:
  "(truthy_str (LUMAAI_API_KEY env) \<and> create_result env = Inr (Some gid) \<and> gid \<noteq> [] \<longrightarrow>
      started_polls (fst (lumaGenerateImageTool env (Inr v))) =
        [\<lparr>generationId = gid, progressToken = exchange_progressToken env, expectedAssetType = None\<rparr>]) \<and>
   (expectedAssetType lopts = None \<and> attempts s < MAX_POLLING_ATTEMPTS \<and> outcome s = None \<and>
    state g = Some ''completed'' \<and> assets g = Some a \<and> assets_video a = None \<longrightarrow>
      luma_tick lopts (Returned g) s =
        s\<lparr>attempts := Suc (attempts s), cleared := True,
          outcome := Some (Inl (McpError InternalError
                       (''Luma AI task '' @ generationId lopts @ '' Task completed but no video URL found.''))),
          trace := trace s @ Fetch # ClearInterval #
                   luma_progress lopts ''FAILED''
                     (JObject [(''reason'', JString ''Task completed but no video URL found.'')]) @
                   [Reject (McpError InternalError
                       (''Luma AI task '' @ generationId lopts @ '' Task completed but no video URL found.''))]\<rparr>)"
proof -
  have tool: "started_polls (fst (lumaGenerateImageTool env (Inr v))) =
        [\<lparr>generationId = gid, progressToken = exchange_progressToken env, expectedAssetType = None\<rparr>]"
    if "truthy_str (LUMAAI_API_KEY env)" "create_result env = Inr (Some gid)" "gid \<noteq> []"
    using that
    by (simp add: lumaGenerateImageTool_def lumaImage_try_def initiated_def Let_def)
  let ?s = "s\<lparr>attempts := Suc (attempts s), trace := trace s @ [Fetch]\<rparr>"
  have poll: "luma_tick lopts (Returned g) s =
        s\<lparr>attempts := Suc (attempts s), cleared := True,
          outcome := Some (Inl (McpError InternalError
                       (''Luma AI task '' @ generationId lopts @ '' Task completed but no video URL found.''))),
          trace := trace s @ Fetch # ClearInterval #
                   luma_progress lopts ''FAILED''
                     (JObject [(''reason'', JString ''Task completed but no video URL found.'')]) @
                   [Reject (McpError InternalError
                       (''Luma AI task '' @ generationId lopts @ '' Task completed but no video URL found.''))]\<rparr>"
    if h: "expectedAssetType lopts = None" "attempts s < MAX_POLLING_ATTEMPTS" "outcome s = None"
      "state g = Some ''completed''" "assets g = Some a" "assets_video a = None"
  proof -
    have e: "luma_expected lopts = Video" using h(1) by (simp add: luma_expected_def)
    have m: "\<not> truthy_str (fst (luma_asset (luma_expected lopts) g))"
      using h(5,6) by (simp add: e luma_asset_def)
    have o: "outcome ?s = None" using h(3) by simp
    show ?thesis
      using luma_on_status_completed_missing[OF h(4) m o] h(2)
      by (simp add: luma_tick_fetch e)
  qed
  show ?thesis using tool poll by blast
qed

theorem C10_witness:
  "truthy_str (LUMAAI_API_KEY \<lparr>LUMAAI_API_KEY = Some ''key'', create_result = Inr (Some ''gen-1''),
       exchange_progressToken = Some ''tok'', exchange_has_sendProgress = True,
       mcp_message = (\<lambda>c m. m)\<rparr>) \<and>
   started_polls (fst (lumaGenerateImageTool
     \<lparr>LUMAAI_API_KEY = Some ''key'', create_result = Inr (Some ''gen-1''),
       exchange_progressToken = Some ''tok'', exchange_has_sendProgress = True,
       mcp_message = (\<lambda>c m. m)\<rparr>
     (Inr \<lparr>prompt = ''a red fox'', aspect_ratio = ''16:9'', model = ''photon-1'',
           image_ref = None, style_ref = None, character_ref = None, modify_image_ref = None\<rparr>)))
   = [\<lparr>generationId = ''gen-1'', progressToken = Some ''tok'', expectedAssetType = None\<rparr>] \<and>
   attempts init_session < MAX_POLLING_ATTEMPTS \<and> outcome init_session = None \<and>
   luma_tick \<lparr>generationId = ''gen-1'', progressToken = Some ''tok'', expectedAssetType = None\<rparr>
     (Returned \<lparr>state = Some ''completed'',
                 assets = Some \<lparr>assets_video = None, assets_image = Some ''https://x/fox.png''\<rparr>,
                 failure_reason = None\<rparr>) init_session
   = \<lparr>attempts = 1, cleared = True,
      outcome = Some (Inl (McpError InternalError
                  ''Luma AI task gen-1 Task completed but no video URL found.'')),
      trace = [Fetch, ClearInterval,
               Emit ''FAILED'' (JObject [(''reason'', JString ''Task completed but no video URL found.'')]),
               Sent ''tok'' (JObject [(''status'', JString ''FAILED''),
                  (''result'', JObject [(''reason'', JString ''Task completed but no video URL found.'')])]),
               Reject (McpError InternalError
                  ''Luma AI task gen-1 Task completed but no video URL found.'')]\<rparr>"
  using C10_image_tool_polls_for_video
    [of "\<lparr>LUMAAI_API_KEY = Some ''key'', create_result = Inr (Some ''gen-1''),
       exchange_progressToken = Some ''tok'', exchange_has_sendProgress = True,
       mcp_message = (\<lambda>c m. m)\<rparr>"
       "''gen-1''"
       "\<lparr>prompt = ''a red fox'', aspect_ratio = ''16:9'', model = ''photon-1'',
           image_ref = None, style_ref = None, character_ref = None, modify_image_ref = None\<rparr>"
       "\<lparr>generationId = ''gen-1'', progressToken = Some ''tok'', expectedAssetType = None\<rparr>"
       init_session
       "\<lparr>state = Some ''completed'',
                 assets = Some \<lparr>assets_video = None, assets_image = Some ''https://x/fox.png''\<rparr>,
                 failure_reason = None\<rparr>"
       "\<lparr>assets_video = None, assets_image = Some ''https://x/fox.png''\<rparr>"]
  by (simp add: init_session_def MAX_POLLING_ATTEMPTS_def luma_progress_def)

end
